theory Spec2Isabelle
  imports Main "HOL-Library.Word"
begin

section \<open>udlerrors: must-be-checked status codes\<close>

text \<open>
  A shallow embedding of \<^verbatim>\<open>src/udlerrors/main.cpp\<close>: the three status types
  \<^verbatim>\<open>win\<close>, \<^verbatim>\<open>nt\<close> and \<^verbatim>\<open>hr\<close>, the wrapper \<^verbatim>\<open>unique_error<T>\<close> whose
  destructor calls \<^verbatim>\<open>std::terminate\<close> while the flag \<^verbatim>\<open>issafe\<close> is false, the
  exceptions, and the handlers applied with \<^verbatim>\<open>operator||\<close>.
\<close>

subsection \<open>Platform types, constants and macros\<close>

text \<open>
  \<^verbatim>\<open>DWORD\<close> is an unsigned and \<^verbatim>\<open>NTSTATUS\<close>, \<^verbatim>\<open>HRESULT\<close> are signed 32-bit
  integers. All three are 32-bit words here; a signed comparison reads the word with
  \<^term>\<open>sint\<close>.
\<close>

type_synonym DWORD = "32 word"
type_synonym NTSTATUS = "32 word"
type_synonym HRESULT = "32 word"

text \<open>
  Modelled from the spec: the platform headers (\<^verbatim>\<open>windows.h\<close>, \<^verbatim>\<open>winternl.h\<close>,
  \<^verbatim>\<open>ntstatus.h\<close>) are not among the sources. They supply the reserved success code of
  each domain, which is zero in all three.
\<close>

definition NOERROR :: DWORD where
  "NOERROR = 0"

definition STATUS_SUCCESS :: NTSTATUS where
  "STATUS_SUCCESS = 0"

definition S_OK :: HRESULT where
  "S_OK = 0"

text \<open>
  Modelled from the spec: the macros \<^verbatim>\<open>NT_SUCCESS\<close>, \<^verbatim>\<open>NT_INFORMATION\<close>,
  \<^verbatim>\<open>NT_WARNING\<close> and \<^verbatim>\<open>NT_ERROR\<close> of \<^verbatim>\<open>winternl.h\<close> are not among the sources.
  The severity of an \<^verbatim>\<open>NTSTATUS\<close> is its two top bits: 0 success, 1 information,
  2 warning, 3 error; \<^verbatim>\<open>NT_SUCCESS\<close> is the signed test \<^verbatim>\<open>Status >= 0\<close>.
\<close>

definition NT_SUCCESS :: "NTSTATUS \<Rightarrow> bool" where
  "NT_SUCCESS Status = (0 \<le> sint Status)"

definition NT_INFORMATION :: "NTSTATUS \<Rightarrow> bool" where
  "NT_INFORMATION Status = (drop_bit 30 Status = 1)"

definition NT_WARNING :: "NTSTATUS \<Rightarrow> bool" where
  "NT_WARNING Status = (drop_bit 30 Status = 2)"

definition NT_ERROR :: "NTSTATUS \<Rightarrow> bool" where
  "NT_ERROR Status = (drop_bit 30 Status = 3)"

text \<open>
  Modelled from the spec: the macros \<^verbatim>\<open>SUCCEEDED\<close> and \<^verbatim>\<open>FAILED\<close> of
  \<^verbatim>\<open>winerror.h\<close> are not among the sources. They test the sign of the
  \<^verbatim>\<open>HRESULT\<close>.
\<close>

definition SUCCEEDED :: "HRESULT \<Rightarrow> bool" where
  "SUCCEEDED h = (0 \<le> sint h)"

definition FAILED :: "HRESULT \<Rightarrow> bool" where
  "FAILED h = (sint h < 0)"

subsection \<open>The status types\<close>

text \<open>
  Each status type is a struct with the single member \<^verbatim>\<open>value\<close>, a default
  constructor that stores the success code, an explicit constructor from the raw code
  (the datatype constructor here), and an explicit conversion to \<^verbatim>\<open>bool\<close>.
\<close>

datatype win = win (win_value: DWORD)

definition win_default :: win where
  "win_default = win NOERROR"

definition win_bool :: "win \<Rightarrow> bool" where
  "win_bool w = (win_value w = 0)"

datatype nt = nt (nt_value: NTSTATUS)

definition nt_default :: nt where
  "nt_default = nt STATUS_SUCCESS"

definition nt_success :: "nt \<Rightarrow> bool" where
  "nt_success n = NT_SUCCESS (nt_value n)"

definition nt_information :: "nt \<Rightarrow> bool" where
  "nt_information n = NT_INFORMATION (nt_value n)"

definition nt_warning :: "nt \<Rightarrow> bool" where
  "nt_warning n = NT_WARNING (nt_value n)"

definition nt_error :: "nt \<Rightarrow> bool" where
  "nt_error n = NT_ERROR (nt_value n)"

text \<open>The source reads \<^verbatim>\<open>explicit operator bool() const { return error(); }\<close>.\<close>

definition nt_bool :: "nt \<Rightarrow> bool" where
  "nt_bool n = nt_error n"

datatype hr = hr (hr_value: HRESULT)

definition hr_default :: hr where
  "hr_default = hr S_OK"

definition hr_succeeded :: "hr \<Rightarrow> bool" where
  "hr_succeeded h = SUCCEEDED (hr_value h)"

definition hr_failed :: "hr \<Rightarrow> bool" where
  "hr_failed h = FAILED (hr_value h)"

definition hr_bool :: "hr \<Rightarrow> bool" where
  "hr_bool h = hr_succeeded h"

subsection \<open>What the templates ask of a status type\<close>

text \<open>
  The templates are instantiated at any type \<^verbatim>\<open>T\<close> with the member typedef
  \<^verbatim>\<open>is_error\<close>. They use \<^verbatim>\<open>T{}\<close>, the conversion to \<^verbatim>\<open>bool\<close> and the member
  \<^verbatim>\<open>value\<close>; a template instance is a function that takes these three as a record.
\<close>

record 't is_error =
  T_default :: 't
  T_bool :: "'t \<Rightarrow> bool"
  T_value :: "'t \<Rightarrow> 32 word"

definition win_is_error :: "win is_error" where
  "win_is_error = \<lparr>T_default = win_default, T_bool = win_bool, T_value = win_value\<rparr>"

definition nt_is_error :: "nt is_error" where
  "nt_is_error = \<lparr>T_default = nt_default, T_bool = nt_bool, T_value = nt_value\<rparr>"

definition hr_is_error :: "hr is_error" where
  "hr_is_error = \<lparr>T_default = hr_default, T_bool = hr_bool, T_value = hr_value\<rparr>"

text \<open>\<^verbatim>\<open>bool ok(const T& t) { return !!t; }\<close>\<close>

definition ok :: "'t is_error \<Rightarrow> 't \<Rightarrow> bool" where
  "ok d t = (\<not> \<not> T_bool d t)"

text \<open>The comparison templates on two status values of one type.\<close>

definition op_eq :: "'t is_error \<Rightarrow> 't \<Rightarrow> 't \<Rightarrow> bool" where
  "op_eq d lhs rhs = (T_value d lhs = T_value d rhs)"

definition op_ne :: "'t is_error \<Rightarrow> 't \<Rightarrow> 't \<Rightarrow> bool" where
  "op_ne d lhs rhs = (T_value d lhs \<noteq> T_value d rhs)"

subsection \<open>The wrapper \<^verbatim>\<open>unique_error\<close>\<close>

record 't unique_error =
  error :: 't
  issafe :: bool

text \<open>
  \<^verbatim>\<open>std::terminate\<close> ends the process: an operation that may call it returns
  \<open>Inl Terminate\<close> there and its ordinary result under \<open>Inr\<close> otherwise.
\<close>

datatype abort = Terminate

definition safe_or_terminate :: "'t unique_error \<Rightarrow> abort + unit" where
  "safe_or_terminate u = (if \<not> issafe u then Inl Terminate else Inr ())"

text \<open>The destructor \<^verbatim>\<open>~unique_error() { safe_or_terminate(); }\<close>\<close>

definition dtor :: "'t unique_error \<Rightarrow> abort + unit" where
  "dtor u = safe_or_terminate u"

text \<open>
  \<^verbatim>\<open>unique_error() : issafe(true) {}\<close> default-initialises the member \<^verbatim>\<open>error\<close>,
  which runs the default constructor of \<^verbatim>\<open>T\<close>.
\<close>

definition unique_error_default :: "'t is_error \<Rightarrow> 't unique_error" where
  "unique_error_default d = \<lparr>error = T_default d, issafe = True\<rparr>"

text \<open>
  \<^verbatim>\<open>template<class V> unique_error(V v) : error(v), issafe(false) {}\<close>: the member is
  initialised by the constructor of \<^verbatim>\<open>T\<close> that takes a \<^verbatim>\<open>V\<close>, passed here as
  \<open>T_of\<close> (the datatype constructor for a raw code, the identity for a \<^verbatim>\<open>T\<close>).
\<close>

definition unique_error_of :: "('v \<Rightarrow> 't) \<Rightarrow> 'v \<Rightarrow> 't unique_error" where
  "unique_error_of T_of v = \<lparr>error = T_of v, issafe = False\<rparr>"

text \<open>
  \<^verbatim>\<open>bool ok() const { issafe = true; return error::ok(error); }\<close>: the flag is
  \<^verbatim>\<open>mutable\<close>, so the call returns the answer and the wrapper with the flag set.
\<close>

definition unique_error_ok :: "'t is_error \<Rightarrow> 't unique_error \<Rightarrow> bool \<times> 't unique_error" where
  "unique_error_ok d u = (ok d (error u), u\<lparr>issafe := True\<rparr>)"

definition get :: "'t unique_error \<Rightarrow> 't" where
  "get u = error u"

definition is_safe :: "'t unique_error \<Rightarrow> bool" where
  "is_safe u = issafe u"

text \<open>
  \<^verbatim>\<open>reset() { safe_or_terminate(); error = T{}; issafe = true; return *this; }\<close> and
  \<^verbatim>\<open>reset(V v) { safe_or_terminate(); error = T{v}; issafe = false; return *this; }\<close>
\<close>

definition reset :: "'t is_error \<Rightarrow> 't unique_error \<Rightarrow> abort + 't unique_error" where
  "reset d u =
     (case safe_or_terminate u of
        Inl a \<Rightarrow> Inl a
      | Inr _ \<Rightarrow> Inr (u\<lparr>error := T_default d, issafe := True\<rparr>))"

definition reset_of :: "('v \<Rightarrow> 't) \<Rightarrow> 't unique_error \<Rightarrow> 'v \<Rightarrow> abort + 't unique_error" where
  "reset_of T_of u v =
     (case safe_or_terminate u of
        Inl a \<Rightarrow> Inl a
      | Inr _ \<Rightarrow> Inr (u\<lparr>error := T_of v, issafe := False\<rparr>))"

text \<open>
  \<^verbatim>\<open>T release() { T result = error; error = T{}; issafe = true; return result; }\<close>
\<close>

definition release :: "'t is_error \<Rightarrow> 't unique_error \<Rightarrow> 't \<times> 't unique_error" where
  "release d u = (error u, u\<lparr>error := T_default d, issafe := True\<rparr>)"

text \<open>\<^verbatim>\<open>bool ok(const unique_error<T>& t) { return t.ok(); }\<close>\<close>

definition ok_unique_error :: "'t is_error \<Rightarrow> 't unique_error \<Rightarrow> bool \<times> 't unique_error" where
  "ok_unique_error d t = unique_error_ok d t"

subsection \<open>Copying\<close>

text \<open>
  The copy constructor and the copy assignment write the flag of their argument
  through the \<^verbatim>\<open>const\<close> reference, and the argument of an assignment may be the
  assigned object itself. Wrappers therefore live in a store, addressed by the object
  they are, and the two operations are the sequences of member writes of the source:
  \<^verbatim>\<open>unique_error(const unique_error& o) : error(o.error), issafe(o.issafe) { o.issafe = true; }\<close>
  \<^verbatim>\<open>operator=(const unique_error& o) { error = o.error; issafe = o.issafe; o.issafe = true; return *this; }\<close>
\<close>

type_synonym addr = nat
type_synonym 't store = "addr \<Rightarrow> 't unique_error"

definition write_error :: "addr \<Rightarrow> 't \<Rightarrow> 't store \<Rightarrow> 't store" where
  "write_error p e s = s(p := (s p)\<lparr>error := e\<rparr>)"

definition write_issafe :: "addr \<Rightarrow> bool \<Rightarrow> 't store \<Rightarrow> 't store" where
  "write_issafe p b s = s(p := (s p)\<lparr>issafe := b\<rparr>)"

definition copy_ctor :: "addr \<Rightarrow> addr \<Rightarrow> 't store \<Rightarrow> 't store" where
  "copy_ctor this that s =
     (let s1 = s(this := \<lparr>error = error (s that), issafe = issafe (s that)\<rparr>);
          s2 = write_issafe that True s1
      in s2)"

definition op_assign :: "addr \<Rightarrow> addr \<Rightarrow> 't store \<Rightarrow> 't store" where
  "op_assign this that s =
     (let s1 = write_error this (error (s that)) s;
          s2 = write_issafe this (issafe (s1 that)) s1;
          s3 = write_issafe that True s2
      in s3)"

subsection \<open>The calls between construction and destruction\<close>

text \<open>
  Client code calls the members of the wrappers it holds, one call after the other,
  before their scopes end. A call names the wrappers it works on by their place in the
  store. \<^verbatim>\<open>get()\<close> and \<^verbatim>\<open>is_safe()\<close> only read (the comparison operators on
  wrappers read through \<^verbatim>\<open>get()\<close>); \<^verbatim>\<open>reset\<close> may end the process, and then no later
  call runs.
\<close>

datatype 'v call =
    Ok addr
  | Release addr
  | Reset addr
  | Reset_of addr 'v
  | Get addr
  | Is_safe addr
  | Copy_ctor addr addr
  | Assign addr addr

fun step :: "'t is_error \<Rightarrow> ('v \<Rightarrow> 't) \<Rightarrow> 'v call \<Rightarrow> 't store \<Rightarrow> abort + 't store" where
  "step d T_of (Ok p) s = Inr (s(p := snd (unique_error_ok d (s p))))"
| "step d T_of (Release p) s = Inr (s(p := snd (release d (s p))))"
| "step d T_of (Reset p) s =
     (case reset d (s p) of Inl a \<Rightarrow> Inl a | Inr u \<Rightarrow> Inr (s(p := u)))"
| "step d T_of (Reset_of p v) s =
     (case reset_of T_of (s p) v of Inl a \<Rightarrow> Inl a | Inr u \<Rightarrow> Inr (s(p := u)))"
| "step d T_of (Get p) s = Inr s"
| "step d T_of (Is_safe p) s = Inr s"
| "step d T_of (Copy_ctor this that) s = Inr (copy_ctor this that s)"
| "step d T_of (Assign this that) s = Inr (op_assign this that s)"

fun run :: "'t is_error \<Rightarrow> ('v \<Rightarrow> 't) \<Rightarrow> 'v call list \<Rightarrow> 't store \<Rightarrow> abort + 't store" where
  "run d T_of [] s = Inr s"
| "run d T_of (c # cs) s =
     (case step d T_of c s of Inl a \<Rightarrow> Inl a | Inr s' \<Rightarrow> run d T_of cs s')"

text \<open>
  The life of the wrapper at \<open>p\<close>: it is constructed from the raw value \<open>v\<close>, the
  calls run, and its destructor runs. The result is \<open>Inl Terminate\<close> when the process
  was terminated on the way, by a \<^verbatim>\<open>reset\<close> or by this destructor.
\<close>

definition life :: "'t is_error \<Rightarrow> ('v \<Rightarrow> 't) \<Rightarrow> addr \<Rightarrow> 'v \<Rightarrow> 'v call list \<Rightarrow> 't store
    \<Rightarrow> abort + unit" where
  "life d T_of p v cs s =
     (case run d T_of cs (s(p := unique_error_of T_of v)) of
        Inl a \<Rightarrow> Inl a
      | Inr s' \<Rightarrow> dtor (s' p))"

text \<open>
  The calls on the wrapper at \<open>p\<close> that write its members: the three discharge
  operations, and a copy or an assignment in which it is the source or the destination.
\<close>

fun writes :: "addr \<Rightarrow> 'v call \<Rightarrow> bool" where
  "writes p (Ok q) = (q = p)"
| "writes p (Release q) = (q = p)"
| "writes p (Reset q) = (q = p)"
| "writes p (Reset_of q v) = (q = p)"
| "writes p (Get q) = False"
| "writes p (Is_safe q) = False"
| "writes p (Copy_ctor this that) = (this = p \<or> that = p)"
| "writes p (Assign this that) = (this = p \<or> that = p)"

definition untouched :: "addr \<Rightarrow> 'v call list \<Rightarrow> bool" where
  "untouched p cs = list_all (\<lambda>c. \<not> writes p c) cs"

subsection \<open>Exceptions\<close>

text \<open>
  \<^verbatim>\<open>error_exception\<close> stores \<^verbatim>\<open>isok(error::ok(e))\<close>; \<^verbatim>\<open>win_exception\<close> derives
  from it and stores the status as well.
\<close>

record error_exception =
  isok :: bool

record win_exception = error_exception +
  win_exception_error :: win

definition error_exception_ok :: "'a error_exception_scheme \<Rightarrow> bool" where
  "error_exception_ok x = isok x"

definition win_exception_of :: "win \<Rightarrow> win_exception" where
  "win_exception_of e = \<lparr>isok = ok win_is_error e, win_exception_error = e\<rparr>"

subsection \<open>Handlers\<close>

text \<open>
  A handler holds the sentinel \<^verbatim>\<open>invalid\<close>. \<^verbatim>\<open>GetLastError()\<close> reads the calling
  thread's last-error code, which the platform call before it has left behind: it is
  the first argument of the two call operators.
  \<^verbatim>\<open>std::pair<win, T> operator()(T r) const
    { return std::make_pair(win{ (r == invalid) ? GetLastError() : NOERROR }, r); }\<close>
  \<^verbatim>\<open>T operator()(T r) const
    { if (r != invalid) return r; throw win_exception{ win{ GetLastError() } }; }\<close>
\<close>

datatype 'r last_error_if_t = last_error_if (last_error_if_invalid: 'r)

datatype 'r throw_last_error_if_t = throw_last_error_if (throw_last_error_if_invalid: 'r)

definition last_error_if_call :: "DWORD \<Rightarrow> 'r last_error_if_t \<Rightarrow> 'r \<Rightarrow> win \<times> 'r" where
  "last_error_if_call GetLastError h r =
     (win (if r = last_error_if_invalid h then GetLastError else NOERROR), r)"

definition throw_last_error_if_call ::
    "DWORD \<Rightarrow> 'r throw_last_error_if_t \<Rightarrow> 'r \<Rightarrow> win_exception + 'r" where
  "throw_last_error_if_call GetLastError h r =
     (if r \<noteq> throw_last_error_if_invalid h then Inr r
      else Inl (win_exception_of (win GetLastError)))"

text \<open>
  The handlers of the other two domains take the status itself and hold no sentinel:
  \<^verbatim>\<open>void operator()(NTSTATUS v) const
    { auto nte = nt{ v }; if (nte) return; throw nt_exception{ nte }; }\<close>
  \<^verbatim>\<open>void operator()(HRESULT v) const
    { auto hre = hr{ v }; if (hre) return; throw hr_exception{ hre }; }\<close>
\<close>

record nt_exception = error_exception +
  nt_exception_error :: nt

definition nt_exception_of :: "nt \<Rightarrow> nt_exception" where
  "nt_exception_of e = \<lparr>isok = ok nt_is_error e, nt_exception_error = e\<rparr>"

definition throw_nt :: "NTSTATUS \<Rightarrow> nt_exception + unit" where
  "throw_nt v = (let nte = nt v in if nt_bool nte then Inr () else Inl (nt_exception_of nte))"

record hr_exception = error_exception +
  hr_exception_error :: hr

definition hr_exception_of :: "hr \<Rightarrow> hr_exception" where
  "hr_exception_of e = \<lparr>isok = ok hr_is_error e, hr_exception_error = e\<rparr>"

definition throw_hr :: "HRESULT \<Rightarrow> hr_exception + unit" where
  "throw_hr v = (let hre = hr v in if hr_bool hre then Inr () else Inl (hr_exception_of hre))"

text \<open>\<^verbatim>\<open>operator||(const ReturnT& result, const T& handler) { return handler(result); }\<close>\<close>

definition pipe :: "'r \<Rightarrow> ('r \<Rightarrow> 'b) \<Rightarrow> 'b" where
  "pipe result handler = handler result"

section \<open>Properties\<close>

subsection \<open>Construction, checking and destruction\<close>

text \<open>
  C7: default construction stores \<^verbatim>\<open>T{}\<close>, which is the reserved success code in each
  of the three domains, and sets the flag; construction from a value \<open>v\<close> stores
  \<^verbatim>\<open>T(v)\<close> and clears the flag, whatever \<open>v\<close> is.
\<close>

theorem construction_opens_obligation:
  "error (unique_error_default d) = T_default d
   \<and> is_safe (unique_error_default d)
   \<and> get (unique_error_default win_is_error) = win NOERROR
   \<and> get (unique_error_default nt_is_error) = nt STATUS_SUCCESS
   \<and> get (unique_error_default hr_is_error) = hr S_OK
   \<and> get (unique_error_of T_of v) = T_of v
   \<and> \<not> is_safe (unique_error_of T_of v)"
  by (simp add: unique_error_default_def unique_error_of_def is_safe_def get_def
      win_is_error_def nt_is_error_def hr_is_error_def
      win_default_def nt_default_def hr_default_def)

text \<open>
  A call that does not write the wrapper at \<open>p\<close> leaves it as it is, and so does a
  run of such calls.
\<close>

lemma step_untouched:
  assumes "\<not> writes p c" and "step d T_of c s = Inr s'"
  shows "s' p = s p"
  using assms
  by (cases c)
    (auto simp: copy_ctor_def op_assign_def write_error_def write_issafe_def Let_def
      split: sum.splits)

lemma run_untouched:
  assumes "untouched p cs" and "run d T_of cs s = Inr s'"
  shows "s' p = s p"
  using assms
proof (induction cs arbitrary: s)
  case Nil
  then show ?case by simp
next
  case (Cons c cs)
  from Cons.prems(2) obtain s1 where first: "step d T_of c s = Inr s1"
    and rest: "run d T_of cs s1 = Inr s'"
    by (auto split: sum.splits)
  from Cons.prems(1) have here: "\<not> writes p c" and later: "untouched p cs"
    by (simp_all add: untouched_def)
  from later rest have "s' p = s1 p"
    by (rule Cons.IH)
  also from here first have "s1 p = s p"
    by (rule step_untouched)
  finally show ?case .
qed

text \<open>
  C1 (amended): a wrapper built from a raw code terminates the process at its
  destruction when no call in between was \<^verbatim>\<open>ok()\<close>, \<^verbatim>\<open>release()\<close> or \<^verbatim>\<open>reset\<close> on
  it, nor a copy or an assignment with it as source or destination, whatever was
  called on other wrappers. Built, asked \<^verbatim>\<open>ok()\<close> once and then destroyed, it does
  not terminate, and \<^verbatim>\<open>ok()\<close> answers with the conversion to \<^verbatim>\<open>bool\<close> of the held
  value, true or false.
\<close>

theorem unchecked_destruction_terminates:
  assumes "untouched p cs"
  shows "life d T_of p v cs s = Inl Terminate
   \<and> dtor (unique_error_of T_of v) = Inl Terminate
   \<and> life d T_of p v [Ok p] s = Inr ()
   \<and> fst (unique_error_ok d (unique_error_of T_of v)) = T_bool d (T_of v)
   \<and> dtor (snd (unique_error_ok d (unique_error_of T_of v))) = Inr ()
   \<and> ok_unique_error d (unique_error_of T_of v) = unique_error_ok d (unique_error_of T_of v)"
proof -
  let ?u = "unique_error_of T_of v"
  let ?s = "s(p := ?u)"
  have unsafe: "\<not> issafe ?u" and held: "error ?u = T_of v"
    by (simp_all add: unique_error_of_def)
  have checked: "issafe (snd (unique_error_ok d ?u))"
    by (simp add: unique_error_ok_def)
  from unsafe have direct: "dtor ?u = Inl Terminate"
    by (simp add: dtor_def safe_or_terminate_def)
  have "life d T_of p v cs s = Inl Terminate"
  proof (cases "run d T_of cs ?s")
    case (Inl a)
    then show ?thesis
      by (cases a) (simp add: life_def)
  next
    case (Inr s')
    with assms have "s' p = ?s p"
      by (rule run_untouched)
    with Inr direct show ?thesis
      by (simp add: life_def)
  qed
  moreover from held have "fst (unique_error_ok d ?u) = T_bool d (T_of v)"
    by (simp add: unique_error_ok_def ok_def)
  moreover from checked have after: "dtor (snd (unique_error_ok d ?u)) = Inr ()"
    by (simp add: dtor_def safe_or_terminate_def)
  moreover from after have "life d T_of p v [Ok p] s = Inr ()"
    by (simp add: life_def)
  ultimately show ?thesis
    using direct by (simp add: ok_unique_error_def)
qed

theorem unchecked_destruction_terminates_witness:
  "untouched 1 [Get 1, Is_safe 1, Ok 0, Copy_ctor 3 2, Assign 0 2, Release 2, Reset_of 3 (7::DWORD)]
   \<and> life win_is_error win 1 5
       [Get 1, Is_safe 1, Ok 0, Copy_ctor 3 2, Assign 0 2, Release 2, Reset_of 3 (7::DWORD)]
       (\<lambda>p. unique_error_default win_is_error) = Inl Terminate
   \<and> life win_is_error win 1 (5::DWORD) [Ok 1] (\<lambda>p. unique_error_default win_is_error) = Inr ()"
proof -
  have others:
    "untouched 1 [Get 1, Is_safe 1, Ok 0, Copy_ctor 3 2, Assign 0 2, Release 2, Reset_of 3 (7::DWORD)]"
    by (simp add: untouched_def)
  show ?thesis
    using others unchecked_destruction_terminates [OF others, of win_is_error win 5
        "\<lambda>p. unique_error_default win_is_error"]
    by simp
qed

text \<open>
  The claim C1 as it was stated fails: with no call to \<^verbatim>\<open>ok()\<close>, \<^verbatim>\<open>release()\<close> or
  \<^verbatim>\<open>reset\<close>, a wrapper built from the code 5 is destroyed without terminating after
  it was copied from (the obligation has moved to the copy), after it was assigned a
  safe wrapper, and after it was assigned to itself.
\<close>

theorem unchecked_destruction_counterexample:
  "life win_is_error win 1 (5::DWORD) [Copy_ctor 0 1] (\<lambda>p. unique_error_default win_is_error)
     = Inr ()
   \<and> life win_is_error win 1 (5::DWORD) [Assign 1 2] (\<lambda>p. unique_error_default win_is_error)
     = Inr ()
   \<and> life win_is_error win 1 (5::DWORD) [Assign 1 1] (\<lambda>p. unique_error_default win_is_error)
     = Inr ()"
  by (simp add: life_def copy_ctor_def op_assign_def write_error_def write_issafe_def
      unique_error_of_def unique_error_default_def dtor_def safe_or_terminate_def)

text \<open>
  C8: \<^verbatim>\<open>release()\<close> returns the held value, whatever the flag was; the wrapper is then
  the default one (neutral value, flag set), its destructor returns, and the returned
  value has the success predicate of the value held before.
\<close>

theorem release_returns_held_and_is_safe:
  "fst (release d u) = get u
   \<and> snd (release d u) = unique_error_default d
   \<and> is_safe (snd (release d u))
   \<and> dtor (snd (release d u)) = Inr ()
   \<and> ok d (fst (release d u)) = ok d (get u)"
  by (simp add: release_def unique_error_default_def is_safe_def get_def dtor_def
      safe_or_terminate_def)

subsection \<open>Status values\<close>

text \<open>
  C9: two status values of one domain are equal exactly when their members
  \<^verbatim>\<open>value\<close> are, and \<^verbatim>\<open>!=\<close> is the negation of \<^verbatim>\<open>==\<close>; in the three domains the
  member is the raw code the value was built from.
\<close>

theorem status_equality_is_code_equality:
  "op_eq d a b = (T_value d a = T_value d b)
   \<and> op_ne d a b = (\<not> op_eq d a b)
   \<and> op_eq win_is_error (win x) (win y) = (x = y)
   \<and> op_eq nt_is_error (nt x) (nt y) = (x = y)
   \<and> op_eq hr_is_error (hr x) (hr y) = (x = y)"
  by (simp add: op_eq_def op_ne_def win_is_error_def nt_is_error_def hr_is_error_def)

text \<open>
  C2: the conversion to \<^verbatim>\<open>bool\<close> of an \<^verbatim>\<open>nt\<close> value, and \<^verbatim>\<open>ok\<close> with it, is the
  error predicate itself and not its complement: it is false at
  \<^verbatim>\<open>STATUS_SUCCESS\<close> and true at the error code \<^verbatim>\<open>0xC0000001\<close>. The
  handler \<^verbatim>\<open>throw_nt\<close>, which returns when the conversion is true, throws at
  \<^verbatim>\<open>STATUS_SUCCESS\<close> and returns at the error code.
\<close>

theorem nt_bool_is_error_predicate:
  "nt_bool n = nt_error n
   \<and> ok nt_is_error n = nt_error n
   \<and> ok nt_is_error (nt STATUS_SUCCESS) = False
   \<and> ok nt_is_error (nt 0xC0000001) = True
   \<and> pipe STATUS_SUCCESS throw_nt = Inl \<lparr>isok = False, nt_exception_error = nt STATUS_SUCCESS\<rparr>
   \<and> pipe 0xC0000001 throw_nt = Inr ()"
proof -
  have success: "\<not> NT_ERROR STATUS_SUCCESS" and failure: "NT_ERROR 0xC0000001"
    by (simp_all add: NT_ERROR_def STATUS_SUCCESS_def)
  have conv: "ok nt_is_error m = NT_ERROR (nt_value m)" for m
    by (simp add: ok_def nt_is_error_def nt_bool_def nt_error_def)
  from success failure show ?thesis
    by (simp add: conv pipe_def throw_nt_def nt_exception_of_def nt_bool_def nt_error_def)
qed

subsection \<open>Copying and assignment\<close>

text \<open>
  C3: copying between two wrappers, by the copy constructor or by assignment, leaves
  the source safe and gives the destination the value and the flag the source had: the
  source's destructor returns, and the destination's destructor does what the source's
  would have done before the copy.
\<close>

theorem copy_transfers_obligation:
  assumes "this \<noteq> that"
  shows "issafe (copy_ctor this that s that)
     \<and> dtor (copy_ctor this that s that) = Inr ()
     \<and> issafe (copy_ctor this that s this) = issafe (s that)
     \<and> error (copy_ctor this that s this) = error (s that)
     \<and> dtor (copy_ctor this that s this) = dtor (s that)
     \<and> issafe (op_assign this that s that)
     \<and> dtor (op_assign this that s that) = Inr ()
     \<and> issafe (op_assign this that s this) = issafe (s that)
     \<and> error (op_assign this that s this) = error (s that)
     \<and> dtor (op_assign this that s this) = dtor (s that)"
proof -
  from assms have c_src: "copy_ctor this that s that = (s that)\<lparr>issafe := True\<rparr>"
    by (simp add: copy_ctor_def write_issafe_def Let_def)
  from assms have c_dst:
    "copy_ctor this that s this = \<lparr>error = error (s that), issafe = issafe (s that)\<rparr>"
    by (simp add: copy_ctor_def write_issafe_def Let_def)
  from assms have a_src: "op_assign this that s that = (s that)\<lparr>issafe := True\<rparr>"
    by (simp add: op_assign_def write_error_def write_issafe_def Let_def)
  from assms have a_dst:
    "op_assign this that s this = (s this)\<lparr>error := error (s that), issafe := issafe (s that)\<rparr>"
    by (simp add: op_assign_def write_error_def write_issafe_def Let_def)
  show ?thesis
    unfolding c_src c_dst a_src a_dst
    by (simp add: dtor_def safe_or_terminate_def)
qed

theorem copy_transfers_obligation_witness:
  "(0::addr) \<noteq> 1
   \<and> dtor (op_assign 0 1 (\<lambda>p. if p = 1 then unique_error_of win (5::DWORD)
                              else unique_error_default win_is_error) 1) = Inr ()
   \<and> dtor (op_assign 0 1 (\<lambda>p. if p = 1 then unique_error_of win (5::DWORD)
                              else unique_error_default win_is_error) 0) = Inl Terminate
   \<and> dtor (copy_ctor 0 1 (\<lambda>p. if p = 1 then unique_error_of win (5::DWORD)
                              else unique_error_default win_is_error) 0) = Inl Terminate"
proof -
  have distinct: "(0::addr) \<noteq> 1" by simp
  show ?thesis
    using copy_transfers_obligation [OF distinct,
        of "\<lambda>p. if p = 1 then unique_error_of win (5::DWORD)
                else unique_error_default win_is_error"]
    by (simp add: unique_error_of_def dtor_def safe_or_terminate_def)
qed

text \<open>
  C10: assigning a wrapper with an outstanding obligation to itself sets its flag and
  keeps its value, so its destructor returns although \<^verbatim>\<open>ok()\<close> was never called.
\<close>

theorem self_assignment_discharges:
  assumes "\<not> issafe (s p)"
  shows "issafe (op_assign p p s p)
     \<and> error (op_assign p p s p) = error (s p)
     \<and> dtor (op_assign p p s p) = Inr ()"
proof -
  have "op_assign p p s p = (s p)\<lparr>issafe := True\<rparr>"
    by (simp add: op_assign_def write_error_def write_issafe_def Let_def)
  then show ?thesis
    by (simp add: dtor_def safe_or_terminate_def)
qed

theorem self_assignment_discharges_witness:
  "\<not> issafe ((\<lambda>p. unique_error_of hr (0x80004005::HRESULT)) (3::addr))
   \<and> dtor ((\<lambda>p. unique_error_of hr (0x80004005::HRESULT)) (3::addr)) = Inl Terminate
   \<and> dtor (op_assign 3 3 (\<lambda>p. unique_error_of hr (0x80004005::HRESULT)) 3) = Inr ()
   \<and> error (op_assign 3 3 (\<lambda>p. unique_error_of hr (0x80004005::HRESULT)) 3) = hr 0x80004005"
proof -
  have unsafe: "\<not> issafe ((\<lambda>p. unique_error_of hr (0x80004005::HRESULT)) (3::addr))"
    by (simp add: unique_error_of_def)
  show ?thesis
    using self_assignment_discharges [OF unsafe]
    by (simp add: unique_error_of_def dtor_def safe_or_terminate_def)
qed

subsection \<open>Reset\<close>

text \<open>
  C4 (amended): \<^verbatim>\<open>reset\<close> does not discharge. On a wrapper with an outstanding
  obligation both overloads terminate the process; on a safe wrapper \<^verbatim>\<open>reset()\<close>
  stores the neutral value and leaves the flag set, and \<^verbatim>\<open>reset(v)\<close> stores
  \<^verbatim>\<open>T{v}\<close> and clears the flag.
\<close>

theorem reset_needs_safe_wrapper:
  "(\<not> is_safe u \<longrightarrow>
      reset d u = Inl Terminate \<and> reset_of T_of u v = Inl Terminate)
   \<and> (is_safe u \<longrightarrow>
      reset d u = Inr (unique_error_default d)
      \<and> reset_of T_of u v = Inr (unique_error_of T_of v))"
proof (cases "issafe u")
  case True
  then have "safe_or_terminate u = Inr ()"
    by (simp add: safe_or_terminate_def)
  with True show ?thesis
    by (simp add: reset_def reset_of_def is_safe_def unique_error_default_def
        unique_error_of_def)
next
  case False
  then have "safe_or_terminate u = Inl Terminate"
    by (simp add: safe_or_terminate_def)
  with False show ?thesis
    by (simp add: reset_def reset_of_def is_safe_def)
qed

theorem reset_needs_safe_wrapper_witness:
  "\<not> is_safe (unique_error_of hr (5::HRESULT))
   \<and> reset hr_is_error (unique_error_of hr (5::HRESULT)) = Inl Terminate
   \<and> reset_of hr (unique_error_of hr (5::HRESULT)) (0::HRESULT) = Inl Terminate
   \<and> is_safe (unique_error_default hr_is_error)
   \<and> reset hr_is_error (unique_error_default hr_is_error) = Inr \<lparr>error = hr 0, issafe = True\<rparr>
   \<and> reset_of hr (unique_error_default hr_is_error) (5::HRESULT)
       = Inr \<lparr>error = hr 5, issafe = False\<rparr>"
  using reset_needs_safe_wrapper [of "unique_error_of hr (5::HRESULT)" hr_is_error hr 0]
    reset_needs_safe_wrapper [of "unique_error_default hr_is_error" hr_is_error hr 5]
  by (simp add: is_safe_def unique_error_of_def unique_error_default_def hr_is_error_def
      hr_default_def S_OK_def)

text \<open>
  The claim C4 as it was stated fails: a wrapper built from a raw code holds an
  outstanding obligation, and either \<^verbatim>\<open>reset\<close> on it ends in \<^verbatim>\<open>std::terminate\<close>.
\<close>

theorem reset_discharges_counterexample:
  "\<not> is_safe (unique_error_of win (5::DWORD))
   \<and> reset win_is_error (unique_error_of win (5::DWORD)) = Inl Terminate
   \<and> reset_of win (unique_error_of win (5::DWORD)) (0::DWORD) = Inl Terminate"
  by (simp add: reset_def reset_of_def safe_or_terminate_def is_safe_def unique_error_of_def)

subsection \<open>Dispatch through a handler\<close>

text \<open>
  C5 (amended): when the raw result is the sentinel, the throwing handler throws a
  \<^verbatim>\<open>win_exception\<close> that carries the last-error code as a \<^verbatim>\<open>win\<close>, and whose
  success predicate is that of the status: false exactly when the code is not
  \<^verbatim>\<open>NOERROR\<close>. Any other raw result is returned as it is and nothing is thrown.
\<close>

theorem throw_last_error_if_dispatch:
  "(r = throw_last_error_if_invalid h \<longrightarrow>
      pipe r (throw_last_error_if_call GetLastError h) = Inl (win_exception_of (win GetLastError))
      \<and> win_exception_error (win_exception_of (win GetLastError)) = win GetLastError
      \<and> error_exception_ok (win_exception_of (win GetLastError)) = (GetLastError = NOERROR))
   \<and> (r \<noteq> throw_last_error_if_invalid h \<longrightarrow>
      pipe r (throw_last_error_if_call GetLastError h) = Inr r)"
proof -
  have "error_exception_ok (win_exception_of (win GetLastError)) = (GetLastError = NOERROR)"
    by (simp add: error_exception_ok_def win_exception_of_def ok_def win_is_error_def
        win_bool_def NOERROR_def)
  moreover have "win_exception_error (win_exception_of (win GetLastError)) = win GetLastError"
    by (simp add: win_exception_of_def)
  ultimately show ?thesis
    by (simp add: pipe_def throw_last_error_if_call_def)
qed

theorem throw_last_error_if_dispatch_witness:
  "(0::64 word) = throw_last_error_if_invalid (throw_last_error_if 0)
   \<and> pipe (0::64 word) (throw_last_error_if_call 6 (throw_last_error_if 0))
       = Inl \<lparr>isok = False, win_exception_error = win 6\<rparr>
   \<and> (7::64 word) \<noteq> throw_last_error_if_invalid (throw_last_error_if 0)
   \<and> pipe (7::64 word) (throw_last_error_if_call 6 (throw_last_error_if 0)) = Inr 7"
  using throw_last_error_if_dispatch [of "0::64 word" "throw_last_error_if 0" 6]
    throw_last_error_if_dispatch [of "7::64 word" "throw_last_error_if 0" 6]
  by (simp add: win_exception_of_def ok_def win_is_error_def win_bool_def)

text \<open>
  The claim C5 as it was stated fails when the last-error code is \<^verbatim>\<open>NOERROR\<close>: the
  raw result is the sentinel, and the exception thrown has a true success predicate.
\<close>

theorem throw_last_error_if_counterexample:
  "pipe (0::64 word) (throw_last_error_if_call 0 (throw_last_error_if 0))
     = Inl \<lparr>isok = True, win_exception_error = win 0\<rparr>
   \<and> error_exception_ok \<lparr>isok = True, win_exception_error = win 0\<rparr>"
  by (simp add: pipe_def throw_last_error_if_call_def win_exception_of_def ok_def
      win_is_error_def win_bool_def error_exception_ok_def)

text \<open>
  C6 (amended): the non-throwing handler returns a pair whose second half is the raw
  result. Its first half is the neutral \<^verbatim>\<open>win\<close>, which passes \<^verbatim>\<open>ok\<close>, when the raw
  result is not the sentinel; when it is the sentinel, the first half carries the
  last-error code and fails \<^verbatim>\<open>ok\<close> exactly when that code is not \<^verbatim>\<open>NOERROR\<close>.
\<close>

theorem last_error_if_dispatch:
  "snd (pipe r (last_error_if_call GetLastError h)) = r
   \<and> (r \<noteq> last_error_if_invalid h \<longrightarrow>
      fst (pipe r (last_error_if_call GetLastError h)) = T_default win_is_error
      \<and> ok win_is_error (fst (pipe r (last_error_if_call GetLastError h))))
   \<and> (r = last_error_if_invalid h \<longrightarrow>
      fst (pipe r (last_error_if_call GetLastError h)) = win GetLastError
      \<and> ok win_is_error (fst (pipe r (last_error_if_call GetLastError h)))
          = (GetLastError = NOERROR))"
  by (simp add: pipe_def last_error_if_call_def ok_def win_is_error_def win_bool_def
      win_default_def NOERROR_def)

theorem last_error_if_dispatch_witness:
  "(0::64 word) = last_error_if_invalid (last_error_if 0)
   \<and> pipe (0::64 word) (last_error_if_call 6 (last_error_if 0)) = (win 6, 0)
   \<and> \<not> ok win_is_error (win 6)
   \<and> (7::64 word) \<noteq> last_error_if_invalid (last_error_if 0)
   \<and> pipe (7::64 word) (last_error_if_call 6 (last_error_if 0)) = (win 0, 7)
   \<and> ok win_is_error (win 0)"
  using last_error_if_dispatch [of "0::64 word" 6 "last_error_if 0"]
    last_error_if_dispatch [of "7::64 word" 6 "last_error_if 0"]
  by (auto simp: prod_eq_iff win_is_error_def win_default_def NOERROR_def)

text \<open>
  The claim C6 as it was stated fails when the last-error code is \<^verbatim>\<open>NOERROR\<close>: the
  raw result is the sentinel, and the status half of the pair passes \<^verbatim>\<open>ok\<close>.
\<close>

theorem last_error_if_counterexample:
  "pipe (0::64 word) (last_error_if_call 0 (last_error_if 0)) = (win 0, 0)
   \<and> ok win_is_error (fst (pipe (0::64 word) (last_error_if_call 0 (last_error_if 0))))"
  by (simp add: pipe_def last_error_if_call_def ok_def win_is_error_def win_bool_def)

end
